theory Spec2Isabelle
  imports Main
begin

section \<open>Values, columns and tables\<close>

text \<open>
  A cell of a table holds a missing value (\<open>NaN\<close>), an integer, a boolean, a string, a
  timestamp (an integer number of time units) or a sequence of cells (the value of an
  "expanding" feature or an iterable default).  Floating-point numbers other than the
  missing value are outside this embedding.
\<close>

datatype val = NaN | IntV int | BoolV bool | StrV string | TimeV int | ListV "val list"

datatype dtype = Int64 | Float64 | Bool | Object | Category | Datetime64

fun dtype_name :: "dtype \<Rightarrow> string" where
  "dtype_name Int64 = ''int64''"
| "dtype_name Float64 = ''float64''"
| "dtype_name Bool = ''bool''"
| "dtype_name Object = ''object''"
| "dtype_name Category = ''category''"
| "dtype_name Datetime64 = ''datetime64[ns]''"

datatype error =
    AssertionError string
  | KeyError string
  | ValueError string
  | TypeError string
  | IndexError string
  | AttributeError string
  | UnboundLocalError string
  | UnknownFeature
  | CouldNotJoin string string dtype string string dtype

text \<open>A pandas Series: a dtype and the cell values, in row order.\<close>

record column =
  dtype :: dtype
  vals :: "val list"

text \<open>
  A pandas DataFrame: the row labels (\<open>index\<close>) and the named columns in column
  order.  Every column of a well-formed table has one value per row label.
\<close>

record frame =
  index :: "val list"
  columns :: "(string \<times> column) list"

definition nrows :: "frame \<Rightarrow> nat" where
  "nrows df = length (index df)"

definition col_names :: "frame \<Rightarrow> string list" where
  "col_names df = map fst (columns df)"

text \<open>\<open>DataFrame.empty\<close>: true when any axis has length zero.\<close>

definition empty :: "frame \<Rightarrow> bool" where
  "empty df = (nrows df = 0 \<or> columns df = [])"


text \<open>\<open>df[name]\<close>: the column, or KeyError.\<close>

definition getitem :: "frame \<Rightarrow> string \<Rightarrow> error + column" where
  "getitem df name =
     (case map_of (columns df) name of
        None \<Rightarrow> Inl (KeyError name)
      | Some c \<Rightarrow> Inr c)"

text \<open>
  The dtype pandas gives a column built from a list of cells: integers stay integers,
  booleans stay booleans, integers with missing values become floats, timestamps
  (possibly with missing ones) are datetimes, everything else is an object column.
\<close>

fun is_int :: "val \<Rightarrow> bool" where
  "is_int (IntV _) = True"
| "is_int _ = False"

fun is_bool :: "val \<Rightarrow> bool" where
  "is_bool (BoolV _) = True"
| "is_bool _ = False"

fun is_num_or_nan :: "val \<Rightarrow> bool" where
  "is_num_or_nan (IntV _) = True"
| "is_num_or_nan NaN = True"
| "is_num_or_nan _ = False"

fun is_time_or_nan :: "val \<Rightarrow> bool" where
  "is_time_or_nan (TimeV _) = True"
| "is_time_or_nan NaN = True"
| "is_time_or_nan _ = False"

definition infer_dtype :: "val list \<Rightarrow> dtype" where
  "infer_dtype xs =
     (if list_all is_num_or_nan xs then (if xs \<noteq> [] \<and> list_all is_int xs then Int64 else Float64)
      else if list_all is_bool xs then Bool
      else if list_all is_time_or_nan xs then Datetime64
      else Object)"

definition mk_column :: "val list \<Rightarrow> column" where
  "mk_column xs = \<lparr>dtype = infer_dtype xs, vals = xs\<rparr>"

text \<open>
  Storing a value under a key (a column under its name, an entry of a Python dict): an
  existing entry of that key is replaced where it stands, a new one is appended last.
\<close>

fun put_col :: "'k \<Rightarrow> 'v \<Rightarrow> ('k \<times> 'v) list \<Rightarrow> ('k \<times> 'v) list" where
  "put_col name c [] = [(name, c)]"
| "put_col name c ((n, d) # rest) =
     (if n = name then (name, c) # rest else (n, d) # put_col name c rest)"

text \<open>\<open>df[name] = scalar\<close>: the scalar is broadcast to every row.\<close>

definition setitem_scalar :: "frame \<Rightarrow> string \<Rightarrow> val \<Rightarrow> frame" where
  "setitem_scalar df name v =
     df\<lparr>columns := put_col name (mk_column (replicate (nrows df) v)) (columns df)\<rparr>"

text \<open>
  \<open>df[name] = list\<close> on a table that has rows: the list needs one value per row,
  otherwise pandas raises ValueError.
\<close>

definition setitem_list :: "frame \<Rightarrow> string \<Rightarrow> val list \<Rightarrow> error + frame" where
  "setitem_list df name xs =
     (if length xs \<noteq> nrows df
      then Inl (ValueError ''Length of values does not match length of index'')
      else Inr (df\<lparr>columns := put_col name (mk_column xs) (columns df)\<rparr>))"

section \<open>Entities, relationships and features\<close>

record entity =
  eid :: string
  eindex :: string
  time_index :: "string option"

record relationship =
  parent_entity_id :: string
  parent_variable :: string
  child_entity_id :: string
  child_variable :: string

text \<open>
  Modelled from the spec: the Timedelta class is not among the sources.  A "use previous"
  window is either an absolute time delta or a count of most-recent rows
  (observations); \<open>td_value\<close> is the duration, respectively the count.  Subtracting an
  absolute window from a time gives the time that much earlier.
\<close>

datatype timedelta = Timedelta (td_value: int) (is_absolute: bool)

definition time_minus :: "int \<Rightarrow> timedelta \<Rightarrow> int" where
  "time_minus t td = t - td_value td"

datatype kind = TransformPrimitive | DirectFeature | AggregationPrimitive | IdentityFeature | OtherFeature

text \<open>
  A feature definition.  \<open>get_function\<close> is the primitive's body: it receives the
  base columns' value sequences and, for a time-aware feature, the cutoff time as the
  keyword \<open>time\<close>.
\<close>

datatype feature = Feature
  (kind: kind)
  (get_name: string)
  (entity: entity)
  (base_features: "feature list")
  (where_f: "feature option")
  (use_previous: "timedelta option")
  (default_value: val)
  (uses_calc_time: bool)
  (expanding: bool)
  (parent_entity: "entity option")
  (get_function: "val list list \<Rightarrow> int option \<Rightarrow> val")

text \<open>
  The entity set, as far as the backend uses it: the entities by id, the two path
  finders, and the name of the link variable of a backward path
  (\<open>Relationship._get_link_variable_name\<close>, which is not among the sources).
\<close>

record entityset =
  entities :: "string \<Rightarrow> entity option"
  find_forward_path :: "string \<Rightarrow> string \<Rightarrow> relationship list"
  find_backward_path :: "string \<Rightarrow> string \<Rightarrow> relationship list"
  get_link_variable_name :: "relationship list \<Rightarrow> string"

record backend =
  entityset :: entityset
  target_eid :: string
  features :: "feature list"

type_synonym entity_frames = "string \<Rightarrow> frame option"

section \<open>The backend: construction and the default table\<close>

text \<open>\<open>PandasBackend.__init__\<close>: all features must be defined on one entity.\<close>

definition PandasBackend :: "entityset \<Rightarrow> feature list \<Rightarrow> error + backend" where
  "PandasBackend es fs =
     (if length (remdups (map (\<lambda>f. eid (entity f)) fs)) \<noteq> 1
      then Inl (AssertionError ''Features must all be defined on the same entity'')
      else Inr \<lparr>entityset = es, target_eid = eid (entity (hd fs)), features = fs\<rparr>)"

text \<open>
  \<open>generate_default_df\<close>: one row per instance id, every row the list of the features'
  default values; then one all-missing column for every extra column name that is not
  a feature column yet.
\<close>

definition default_row :: "backend \<Rightarrow> val list" where
  "default_row self = map default_value (features self)"

definition default_cols :: "backend \<Rightarrow> string list" where
  "default_cols self = map get_name (features self)"

text \<open>\<open>pd.DataFrame(matrix, columns=names, index=ids)\<close> for a matrix given by rows.\<close>

definition frame_of_rows :: "val list list \<Rightarrow> string list \<Rightarrow> val list \<Rightarrow> frame" where
  "frame_of_rows matrix names ids =
     \<lparr>index = ids,
      columns = map (\<lambda>j. (names ! j, mk_column (map (\<lambda>row. row ! j) matrix))) [0..<length names]\<rparr>"

fun add_extra_columns :: "string list \<Rightarrow> frame \<Rightarrow> frame" where
  "add_extra_columns [] df = df"
| "add_extra_columns (c # cs) df =
     add_extra_columns cs
       (if c \<notin> set (col_names df)
        then df\<lparr>columns := put_col c (mk_column (replicate (nrows df) NaN)) (columns df)\<rparr>
        else df)"

definition generate_default_df :: "backend \<Rightarrow> val list \<Rightarrow> string list option \<Rightarrow> frame" where
  "generate_default_df self instance_ids extra_columns =
     (let default_matrix = replicate (length instance_ids) (default_row self);
          default_df = frame_of_rows default_matrix (default_cols self) instance_ids
      in case extra_columns of
           None \<Rightarrow> default_df
         | Some cs \<Rightarrow> add_extra_columns cs default_df)"

section \<open>The orchestrator\<close>

text \<open>
  \<open>df.append(other)\<close>: the rows of \<open>other\<close> after the rows of \<open>df\<close>, aligned by column
  name; a column one side lacks is missing (\<open>NaN\<close>) on that side's rows.  The order of
  the columns is of no consequence here, the caller selects columns by name next.
\<close>

definition col_or_nan :: "frame \<Rightarrow> string \<Rightarrow> val list" where
  "col_or_nan df c =
     (case map_of (columns df) c of
        None \<Rightarrow> replicate (nrows df) NaN
      | Some col \<Rightarrow> vals col)"

definition append_frame :: "frame \<Rightarrow> frame \<Rightarrow> frame" where
  "append_frame df other =
     \<lparr>index = index df @ index other,
      columns = map (\<lambda>c. (c, mk_column (col_or_nan df c @ col_or_nan other c)))
                  (col_names df @ filter (\<lambda>c. c \<notin> set (col_names df)) (col_names other))\<rparr>"

text \<open>\<open>df[[names]]\<close>: the named columns in the order asked for; KeyError if one is missing.\<close>

definition select_columns :: "frame \<Rightarrow> string list \<Rightarrow> error + frame" where
  "select_columns df names =
     (case filter (\<lambda>n. n \<notin> set (col_names df)) names of
        n # _ \<Rightarrow> Inl (KeyError n)
      | [] \<Rightarrow> Inr \<lparr>index = index df,
                   columns = map (\<lambda>n. (n, the (map_of (columns df) n))) names\<rparr>)"

text \<open>
  \<open>calculate_all_features\<close>.  \<open>eframes_by_filter\<close> is what the slice provider
  (\<open>get_pandas_data_slice\<close>) returned for the batch: \<open>None\<close> when the window holds no
  data, otherwise the tables by filter entity and entity.  \<open>run_groups\<close> is the middle
  of the function (merging the precalculated features, then running the calculator of
  every feature group of every entity in dependency order); it hands back the updated
  tables or the error a calculator raised.  Progress reporting and profiling are left
  out.  \<open>i not in df[index]\<close> tests the row labels of the column.
\<close>

definition calculate_all_features ::
  "backend \<Rightarrow> val list \<Rightarrow> (string \<Rightarrow> entity_frames option) option \<Rightarrow>
   ((string \<Rightarrow> entity_frames option) \<Rightarrow> error + (string \<Rightarrow> entity_frames option)) \<Rightarrow>
   error + frame" where
  "calculate_all_features self instance_ids eframes_by_filter run_groups =
     (if \<not> length instance_ids > 0 then Inl (AssertionError ''0 instance ids provided'')
      else case entities (entityset self) (target_eid self) of
        None \<Rightarrow> Inl (KeyError (target_eid self))
      | Some target_entity \<Rightarrow>
      (case eframes_by_filter of
        None \<Rightarrow> Inr (generate_default_df self instance_ids None)
      | Some efs \<Rightarrow>
      (case run_groups efs of
        Inl e \<Rightarrow> Inl e
      | Inr efs' \<Rightarrow>
      (case efs' (target_eid self) of
        None \<Rightarrow> Inl (KeyError (target_eid self))
      | Some ef \<Rightarrow>
      (case ef (target_eid self) of
        None \<Rightarrow> Inl (KeyError (target_eid self))
      | Some df \<Rightarrow>
      (case getitem df (eindex target_entity) of
        Inl e \<Rightarrow> Inl e
      | Inr _ \<Rightarrow>
         (let missing_ids = filter (\<lambda>i. i \<notin> set (index df)) instance_ids;
              df' = (if missing_ids \<noteq> []
                     then append_frame df
                            (generate_default_df self missing_ids (Some (col_names df)))
                     else df)
          in select_columns df' (map get_name (features self)))))))))"

text \<open>\<open>df.at[i, name]\<close> by row position: the cell of the named column in row \<open>i\<close>.\<close>

definition cell :: "frame \<Rightarrow> nat \<Rightarrow> string \<Rightarrow> val option" where
  "cell df i name =
     (case map_of (columns df) name of
        None \<Rightarrow> None
      | Some c \<Rightarrow> if i < length (vals c) then Some (vals c ! i) else None)"

section \<open>Default columns, identity and transform features\<close>

text \<open>
  In the Python of the sources (version 2) a list has \<open>__iter__\<close>, a number, a
  boolean, a string and the missing value have not.
\<close>

fun has_iter :: "val \<Rightarrow> bool" where
  "has_iter (ListV _) = True"
| "has_iter _ = False"

text \<open>
  \<open>set_default_column\<close>: an iterable default is repeated once per row and stored as
  a list, a scalar default is stored as it is and broadcast.
\<close>

definition set_default_column :: "frame \<Rightarrow> feature \<Rightarrow> error + frame" where
  "set_default_column frame f =
     (let default = default_value f in
      if has_iter default
      then (let l = nrows frame in setitem_list frame (get_name f) (replicate l (default_value f)))
      else Inr (setitem_scalar frame (get_name f) default))"

text \<open>\<open>_calculate_identity_features\<close>: nothing but the assertion.\<close>

definition calculate_identity_features :: "feature list \<Rightarrow> entity_frames \<Rightarrow> error + entity_frames" where
  "calculate_identity_features fs entity_frames =
     (case fs of
        [] \<Rightarrow> Inl (IndexError ''list index out of range'')
      | f0 # _ \<Rightarrow>
          (case entity_frames (eid (entity f0)) of
             None \<Rightarrow> Inl (AssertionError [])
           | Some frame \<Rightarrow>
               if get_name f0 \<in> set (col_names frame) then Inr entity_frames
               else Inl (AssertionError [])))"

text \<open>\<open>[frame[n].values for n in names]\<close>: stops at the first missing column.\<close>

fun column_values :: "frame \<Rightarrow> string list \<Rightarrow> error + val list list" where
  "column_values frame [] = Inr []"
| "column_values frame (n # ns) =
     (case getitem frame n of
        Inl e \<Rightarrow> Inl e
      | Inr c \<Rightarrow>
          (case column_values frame ns of
             Inl e \<Rightarrow> Inl e
           | Inr cs \<Rightarrow> Inr (vals c # cs)))"

text \<open>\<open>list(values)\<close>: the items of a sequence, the characters of a string.\<close>

fun to_list :: "val \<Rightarrow> error + val list" where
  "to_list (ListV xs) = Inr xs"
| "to_list (StrV s) = Inr (map (\<lambda>c. StrV [c]) s)"
| "to_list _ = Inl (TypeError ''object is not iterable'')"

text \<open>The body of the loop of \<open>_calculate_transform_features\<close>, for one feature.\<close>

definition transform_feature :: "int \<Rightarrow> frame \<Rightarrow> feature \<Rightarrow> error + frame" where
  "transform_feature time_last frame f =
     (if nrows frame = 0 then set_default_column frame f
      else case column_values frame (map get_name (base_features f)) of
        Inl e \<Rightarrow> Inl e
      | Inr variable_data \<Rightarrow>
          (let feature_func = get_function f;
               values = (if uses_calc_time f then feature_func variable_data (Some time_last)
                         else feature_func variable_data None)
           in case to_list values of
                Inl e \<Rightarrow> Inl e
              | Inr xs \<Rightarrow> setitem_list frame (get_name f) xs))"

fun transform_loop :: "int \<Rightarrow> feature list \<Rightarrow> frame \<Rightarrow> error + frame" where
  "transform_loop time_last [] frame = Inr frame"
| "transform_loop time_last (f # fs) frame =
     (case transform_feature time_last frame f of
        Inl e \<Rightarrow> Inl e
      | Inr frame' \<Rightarrow> transform_loop time_last fs frame')"

definition calculate_transform_features ::
  "int \<Rightarrow> feature list \<Rightarrow> entity_frames \<Rightarrow> error + entity_frames" where
  "calculate_transform_features time_last fs entity_frames =
     (case fs of
        [] \<Rightarrow> Inl (IndexError ''list index out of range'')
      | f0 # _ \<Rightarrow>
          (let entity_id = eid (entity f0) in
           if length (remdups (map (\<lambda>f. eid (entity f)) fs)) \<noteq> 1
           then Inl (AssertionError ''features must share base entity'')
           else case entity_frames entity_id of
             None \<Rightarrow> Inl (AssertionError [])
           | Some frame \<Rightarrow>
               (case transform_loop time_last fs frame of
                  Inl e \<Rightarrow> Inl e
                | Inr frame' \<Rightarrow> Inr (entity_frames(entity_id \<mapsto> frame')))))"

section \<open>Direct features\<close>

text \<open>\<open>df.rename(columns=col_map)\<close>.\<close>

definition rename_columns :: "(string \<times> string) list \<Rightarrow> frame \<Rightarrow> frame" where
  "rename_columns col_map df =
     df\<lparr>columns := map (\<lambda>(n, c). (case map_of col_map n of None \<Rightarrow> n | Some n' \<Rightarrow> n', c))
                        (columns df)\<rparr>"

text \<open>\<open>df.set_index(name, drop=...)\<close>: the named column becomes the row labels.\<close>

definition set_index :: "frame \<Rightarrow> string \<Rightarrow> bool \<Rightarrow> error + frame" where
  "set_index df name drop_col =
     (case map_of (columns df) name of
        None \<Rightarrow> Inl (KeyError name)
      | Some c \<Rightarrow>
          Inr \<lparr>index = vals c,
               columns = (if drop_col then filter (\<lambda>(n, _). n \<noteq> name) (columns df)
                          else columns df)\<rparr>)"

text \<open>
  \<open>pd.merge(left, right, left_on=key, right_index=True, how='left')\<close>.  Every left row
  is kept, in order, once for every right row whose label equals the row's key, and
  once with missing values when no right row does.  The plan lists, for every row of
  the result, the left row and the right row (if any) it is made of.  A column name
  that both sides have gets the suffixes \<open>_x\<close> and \<open>_y\<close>.
\<close>

definition merge_plan :: "val list \<Rightarrow> val list \<Rightarrow> (nat \<times> nat option) list" where
  "merge_plan keys ridx =
     concat (map (\<lambda>i. case filter (\<lambda>j. ridx ! j = keys ! i) [0..<length ridx] of
                         [] \<Rightarrow> [(i, None)]
                       | js \<Rightarrow> map (\<lambda>j. (i, Some j)) js)
                 [0..<length keys])"

definition merge_left :: "frame \<Rightarrow> frame \<Rightarrow> string \<Rightarrow> error + frame" where
  "merge_left left right left_on =
     (case map_of (columns left) left_on of
        None \<Rightarrow> Inl (KeyError left_on)
      | Some kc \<Rightarrow>
          (let plan = merge_plan (vals kc) (index right) in
           Inr \<lparr>index = map (\<lambda>(i, _). index left ! i) plan,
                columns =
                  map (\<lambda>(n, c). (if n \<in> set (col_names right) then n @ ''_x'' else n,
                                  c\<lparr>vals := map (\<lambda>(i, _). vals c ! i) plan\<rparr>))
                      (columns left)
                  @ map (\<lambda>(n, c). (if n \<in> set (col_names left) then n @ ''_y'' else n,
                                    mk_column (map (\<lambda>(_, j). case j of None \<Rightarrow> NaN
                                                              | Some j \<Rightarrow> vals c ! j) plan)))
                      (columns right)\<rparr>))"

text \<open>
  The loop that builds \<open>col_map\<close> and finds \<open>index_as_feature\<close>.  The state is the pair
  of both; \<open>pv\<close> is the parent variable of the hop, \<open>child_cols\<close> the child table's
  column names.
\<close>

fun direct_col_map ::
  "string \<Rightarrow> string list \<Rightarrow> feature list \<Rightarrow> feature option \<times> (string \<times> string) list \<Rightarrow>
   error + feature option \<times> (string \<times> string) list" where
  "direct_col_map pv child_cols [] st = Inr st"
| "direct_col_map pv child_cols (f # fs) (index_as_feature, col_map) =
     (case base_features f of
        [] \<Rightarrow> Inl (IndexError ''list index out of range'')
      | bf0 # _ \<Rightarrow>
          (let index_as_feature' = (if get_name bf0 = pv then Some f else index_as_feature) in
           if get_name f \<in> set child_cols
           then direct_col_map pv child_cols fs (index_as_feature', col_map)
           else direct_col_map pv child_cols fs
                  (index_as_feature', put_col (get_name bf0) (get_name f) col_map)))"

definition calculate_direct_features ::
  "backend \<Rightarrow> feature list \<Rightarrow> entity_frames \<Rightarrow> error + entity_frames" where
  "calculate_direct_features self fs entity_frames =
     (case fs of
        [] \<Rightarrow> Inl (IndexError ''list index out of range'')
      | f0 # _ \<Rightarrow>
      (case parent_entity f0 of
        None \<Rightarrow> Inl (AttributeError ''parent_entity'')
      | Some pe \<Rightarrow>
      (let entity_id = eid (entity f0); parent_entity_id = eid pe in
       case (entity_frames entity_id, entity_frames parent_entity_id) of
         (Some child_df, Some parent_df) \<Rightarrow>
           (let path = find_forward_path (entityset self) entity_id parent_entity_id in
            if length path \<noteq> 1
            then Inl (AssertionError ''Error calculating DirectFeatures, len(path) > 1'')
            else
              (let merge_var = child_variable (path ! 0);
                   pv = parent_variable (path ! 0)
               in case direct_col_map pv (col_names child_df) fs (None, [(pv, merge_var)]) of
                    Inl e \<Rightarrow> Inl e
                  | Inr (index_as_feature, col_map) \<Rightarrow>
                  (case select_columns parent_df (map fst col_map) of
                    Inl e \<Rightarrow> Inl e
                  | Inr sel \<Rightarrow>
                  (case (case index_as_feature of
                           Some f \<Rightarrow> set_index (rename_columns col_map sel) (get_name f) False
                         | None \<Rightarrow> set_index (rename_columns col_map sel) merge_var True) of
                    Inl e \<Rightarrow> Inl e
                  | Inr merge_df \<Rightarrow>
                  (case merge_left child_df merge_df merge_var of
                    Inl e \<Rightarrow> Inl e
                  | Inr new_df \<Rightarrow> Inr (entity_frames(entity_id \<mapsto> new_df)))))))
       | _ \<Rightarrow> Inl (AssertionError []))))"

section \<open>Aggregation features\<close>

text \<open>The rows at the given positions, in the order given.\<close>

definition take_rows :: "nat list \<Rightarrow> frame \<Rightarrow> frame" where
  "take_rows ps df =
     \<lparr>index = map (\<lambda>i. index df ! i) ps,
      columns = map (\<lambda>(n, c). (n, c\<lparr>vals := map (\<lambda>i. vals c ! i) ps\<rparr>)) (columns df)\<rparr>"

text \<open>
  Lines 321-323, the where clause: \<open>base_frame[base_frame[where.get_name()]]\<close> keeps the
  rows whose cell of the where column is true.  pandas refuses a mask with a cell that
  is not a boolean.
\<close>

definition agg_where_filter :: "feature option \<Rightarrow> frame \<Rightarrow> error + frame" where
  "agg_where_filter w base_frame =
     (case w of
        None \<Rightarrow> Inr base_frame
      | Some wfeat \<Rightarrow>
          (case getitem base_frame (get_name wfeat) of
             Inl e \<Rightarrow> Inl e
           | Inr c \<Rightarrow>
               if list_all is_bool (vals c)
               then Inr (take_rows (filter (\<lambda>i. vals c ! i = BoolV True) [0..<nrows base_frame])
                           base_frame)
               else Inl (ValueError ''cannot index with a mask that is not boolean'')))"

text \<open>
  \<open>df.iloc[-n:]\<close>, a Python slice: for a positive \<open>n\<close> the last \<open>n\<close> items (all of them
  when there are fewer), for \<open>n = 0\<close> the slice starts at position 0, for a negative
  \<open>n\<close> at position \<open>-n\<close>.
\<close>

definition last_n :: "int \<Rightarrow> 'a list \<Rightarrow> 'a list" where
  "last_n n xs = (if n > 0 then drop (length xs - nat n) xs else drop (nat (- n)) xs)"

text \<open>
  The order pandas gives the groups of a \<open>groupby\<close>, which sorts the keys: numbers by
  value (a boolean counts as 0 or 1), then times, then strings by the code points of
  their characters.
\<close>

fun str_le :: "string \<Rightarrow> string \<Rightarrow> bool" where
  "str_le [] t = True"
| "str_le (c # s) [] = False"
| "str_le (c # s) (d # t) = ((of_char c :: nat) < of_char d \<or> (c = d \<and> str_le s t))"

fun key_rank :: "val \<Rightarrow> nat" where
  "key_rank (IntV _) = 0"
| "key_rank (BoolV _) = 0"
| "key_rank (TimeV _) = 1"
| "key_rank (StrV _) = 2"
| "key_rank _ = 3"

fun key_num :: "val \<Rightarrow> int" where
  "key_num (IntV i) = i"
| "key_num (BoolV b) = (if b then 1 else 0)"
| "key_num (TimeV t) = t"
| "key_num _ = 0"

fun key_str :: "val \<Rightarrow> string" where
  "key_str (StrV s) = s"
| "key_str _ = []"

definition key_le :: "val \<Rightarrow> val \<Rightarrow> bool" where
  "key_le a b =
     (key_rank a < key_rank b
      \<or> (key_rank a = key_rank b
          \<and> (key_num a < key_num b
              \<or> (key_num a = key_num b \<and> str_le (key_str a) (key_str b)))))"

fun insert_key :: "val \<Rightarrow> val list \<Rightarrow> val list" where
  "insert_key k [] = [k]"
| "insert_key k (x # xs) = (if key_le k x then k # x # xs else x # insert_key k xs)"

definition sort_keys :: "val list \<Rightarrow> val list" where
  "sort_keys ks = foldr insert_key ks []"

text \<open>
  \<open>groupby\<close> on a column: one group per value of the column that is not missing, a
  group being the positions of the rows that hold the value, in row order; the groups
  stand in the order of their keys.
\<close>

definition group_keys :: "val list \<Rightarrow> val list" where
  "group_keys col = sort_keys (remdups (filter (\<lambda>v. v \<noteq> NaN) col))"

definition group_rows :: "val list \<Rightarrow> val \<Rightarrow> nat list" where
  "group_rows col k = filter (\<lambda>i. col ! i = k) [0..<length col]"

text \<open>\<open>series >= time_first\<close> on a cell: false on a missing time.\<close>

fun ge_time :: "val \<Rightarrow> int \<Rightarrow> bool" where
  "ge_time (TimeV t) time_first = (time_first \<le> t)"
| "ge_time _ time_first = False"

text \<open>
  \<open>groupby(groupby_var).apply(last_n)\<close>: \<open>last_n\<close> is applied to the rows of every group.
  When it returns every group as it got it and no row is outside the groups, pandas
  gives the table back with its rows in their own order; otherwise the rows \<open>last_n\<close>
  keeps are put one group after the other, in the order of the groups.  The row labels
  of the result are not read afterwards and stay the rows' own here.
\<close>

definition groupby_apply_last_n :: "int \<Rightarrow> val list \<Rightarrow> frame \<Rightarrow> frame" where
  "groupby_apply_last_n n col base_frame =
     (if list_all (\<lambda>v. v \<noteq> NaN) col
         \<and> list_all (\<lambda>k. last_n n (group_rows col k) = group_rows col k) (group_keys col)
      then base_frame
      else take_rows (concat (map (\<lambda>k. last_n n (group_rows col k)) (group_keys col)))
             base_frame)"

text \<open>
  Lines 330-346, the "use previous" window.  A Timedelta object is true as a condition.
\<close>

definition agg_use_previous ::
  "timedelta option \<Rightarrow> int \<Rightarrow> entity \<Rightarrow> string \<Rightarrow> frame \<Rightarrow> error + frame" where
  "agg_use_previous use_prev time_last child_entity groupby_var base_frame =
     (case use_prev of
        None \<Rightarrow> Inr base_frame
      | Some up \<Rightarrow>
          if empty base_frame then Inr base_frame
          else if is_absolute up then
            (let time_first = time_minus time_last up in
             case time_index child_entity of
               None \<Rightarrow> Inr base_frame
             | Some ti \<Rightarrow>
                 (case getitem base_frame ti of
                    Inl e \<Rightarrow> Inl e
                  | Inr c \<Rightarrow>
                      Inr (take_rows (filter (\<lambda>i. ge_time (vals c ! i) time_first)
                                        [0..<nrows base_frame]) base_frame)))
          else
            (let n = td_value up in
             case getitem base_frame groupby_var of
               Inl e \<Rightarrow> Inl e
             | Inr c \<Rightarrow> Inr (groupby_apply_last_n n (vals c) base_frame)))"

text \<open>
  Python's \<open>==\<close> on two cells: the missing value equals nothing, itself included, and
  \<open>True\<close> and \<open>False\<close> equal 1 and 0.
\<close>

fun py_eq :: "val \<Rightarrow> val \<Rightarrow> bool" where
  "py_eq NaN _ = False"
| "py_eq _ NaN = False"
| "py_eq (IntV a) (IntV b) = (a = b)"
| "py_eq (BoolV a) (BoolV b) = (a = b)"
| "py_eq (IntV a) (BoolV b) = (a = (if b then 1 else 0))"
| "py_eq (BoolV a) (IntV b) = ((if a then 1 else 0) = b)"
| "py_eq (StrV a) (StrV b) = (a = b)"
| "py_eq (TimeV a) (TimeV b) = (a = b)"
| "py_eq (ListV a) (ListV b) = (a = b)"
| "py_eq _ _ = False"

text \<open>
  \<open>check_no_related_instances\<close>: the two loops over the sets of values; the \<open>break\<close>
  leaves the inner loop only.
\<close>

fun related_inner :: "val \<Rightarrow> val list \<Rightarrow> bool \<Rightarrow> bool" where
  "related_inner s [] some_instances = some_instances"
| "related_inner s (b # bs) some_instances =
     (if py_eq s b then True else related_inner s bs some_instances)"

fun related_outer :: "val list \<Rightarrow> val list \<Rightarrow> bool \<Rightarrow> bool" where
  "related_outer [] set_base_frame some_instances = some_instances"
| "related_outer (s # ss) set_base_frame some_instances =
     related_outer ss set_base_frame (related_inner s set_base_frame some_instances)"

definition check_no_related_instances :: "val list \<Rightarrow> val list \<Rightarrow> bool" where
  "check_no_related_instances array1 array2 =
     (let some_instances = False;
          set_frame = remdups array1;
          set_base_frame = remdups array2
      in \<not> related_outer set_frame set_base_frame some_instances)"

text \<open>\<open>str.find\<close>: the lowest position at which the substring starts, or -1.\<close>

fun find_from :: "string \<Rightarrow> string \<Rightarrow> nat \<Rightarrow> int" where
  "find_from [] sub i = (if sub = [] then int i else - 1)"
| "find_from (c # s) sub i =
     (if take (length sub) (c # s) = sub then int i else find_from s sub (Suc i))"

definition str_find :: "string \<Rightarrow> string \<Rightarrow> int" where
  "str_find s sub = find_from s sub 0"

text \<open>
  Lines 348-370: the flag \<open>no_instances\<close>, \<open>None\<close> while it is unassigned.
  \<open>astype_object\<close> is pandas' \<open>Series.astype(object)\<close>, \<open>None\<close> when it raises
  ValueError.
\<close>

definition agg_no_instances ::
  "(column \<Rightarrow> column option) \<Rightarrow> entity \<Rightarrow> entity \<Rightarrow> string \<Rightarrow> frame \<Rightarrow> frame \<Rightarrow>
   error + bool option" where
  "agg_no_instances astype_object ent child_entity groupby_var frame base_frame =
     (let index_var = eindex ent in
      if \<not> empty base_frame then
        (if groupby_var \<notin> set (col_names base_frame) then Inr (Some True)
         else case getitem frame index_var of
           Inl e \<Rightarrow> Inl e
         | Inr fc \<Rightarrow>
         (case getitem base_frame groupby_var of
           Inl e \<Rightarrow> Inl e
         | Inr bc \<Rightarrow>
             if dtype fc \<noteq> dtype bc \<or> str_find (dtype_name (dtype fc)) ''category'' > - 1
             then
               (case astype_object fc of
                  None \<Rightarrow> Inl (CouldNotJoin (eid ent) index_var (dtype fc)
                                 (eid child_entity) groupby_var (dtype bc))
                | Some frame_as_obj \<Rightarrow>
                    (case astype_object bc of
                       None \<Rightarrow> Inl (CouldNotJoin (eid ent) index_var (dtype fc)
                                      (eid child_entity) groupby_var (dtype bc))
                     | Some base_frame_as_obj \<Rightarrow>
                         Inr (Some (check_no_related_instances
                                      (vals frame_as_obj) (vals base_frame_as_obj)))))
             else Inr (Some (check_no_related_instances (vals fc) (vals bc)))))
      else Inr None)"

text \<open>
  Line 372, \<open>base_frame.empty or no_instances\<close>: the flag is read only when the table is
  not empty; reading it while it is unassigned raises UnboundLocalError.
\<close>

definition agg_should_default :: "frame \<Rightarrow> bool option \<Rightarrow> error + bool" where
  "agg_should_default base_frame no_instances =
     (if empty base_frame then Inr True
      else case no_instances of
        None \<Rightarrow> Inl (UnboundLocalError ''no_instances'')
      | Some b \<Rightarrow> Inr b)"

text \<open>Lines 373-374: the default column of every feature, on the parent table.\<close>

fun agg_write_defaults :: "feature list \<Rightarrow> frame \<Rightarrow> error + frame" where
  "agg_write_defaults [] frame = Inr frame"
| "agg_write_defaults (f # fs) frame =
     (case set_default_column frame f of
        Inl e \<Rightarrow> Inl e
      | Inr frame' \<Rightarrow> agg_write_defaults fs frame')"

text \<open>\<open>_can_agg\<close>.\<close>

definition can_agg :: "feature \<Rightarrow> error + bool" where
  "can_agg feature =
     (if kind feature \<noteq> AggregationPrimitive then Inl (AssertionError [])
      else
        (let names = (case where_f feature of
                        None \<Rightarrow> map get_name (base_features feature)
                      | Some w \<Rightarrow> filter (\<lambda>n. n \<noteq> get_name w)
                                    (map get_name (base_features feature)))
         in if uses_calc_time feature then Inr False
            else Inr (length names = 1 \<and> \<not> expanding feature)))"

text \<open>
  Lines 384-404: the two buckets.  \<open>to_agg\<close> maps a variable to the functions to
  aggregate it with, each under the unique name it was wrapped with; \<open>agg_rename\<close> maps
  the column \<open>variable-name\<close> of the grouped aggregation to the feature's name;
  \<open>to_apply\<close> is the set of the other features.  \<open>uuid1 k\<close> is the \<open>k\<close>-th identifier
  \<open>str(uuid.uuid1())\<close> hands out.
\<close>

record agg_plan =
  to_agg :: "(string \<times> (string \<times> (val list list \<Rightarrow> int option \<Rightarrow> val)) list) list"
  agg_rename :: "(string \<times> string) list"
  to_apply :: "feature list"

definition empty_plan :: agg_plan where
  "empty_plan = \<lparr>to_agg = [], agg_rename = [], to_apply = []\<rparr>"

fun agg_partition :: "(nat \<Rightarrow> string) \<Rightarrow> nat \<Rightarrow> feature list \<Rightarrow> agg_plan \<Rightarrow> error + agg_plan" where
  "agg_partition uuid1 k [] plan = Inr plan"
| "agg_partition uuid1 k (f # fs) plan =
     (case can_agg f of
        Inl e \<Rightarrow> Inl e
      | Inr True \<Rightarrow>
          (case base_features f of
             [] \<Rightarrow> Inl (IndexError ''list index out of range'')
           | bf0 # _ \<Rightarrow>
               (let variable_id = get_name bf0;
                    funcs = (case map_of (to_agg plan) variable_id of None \<Rightarrow> [] | Some l \<Rightarrow> l);
                    random_id = uuid1 k
                in agg_partition uuid1 (Suc k) fs
                     (plan\<lparr>to_agg := put_col variable_id (funcs @ [(random_id, get_function f)])
                                        (to_agg plan),
                           agg_rename := put_col (variable_id @ ''-'' @ random_id) (get_name f)
                                           (agg_rename plan)\<rparr>)))
      | Inr False \<Rightarrow>
          agg_partition uuid1 k fs (plan\<lparr>to_apply := List.insert f (to_apply plan)\<rparr>))"

text \<open>
  \<open>_calculate_agg_features\<close>, in two parts.  \<open>aggregate\<close> is the end of the function,
  after the two buckets are filled (lines 406-464: the grouped computation of both
  buckets, the merges onto the parent table, the default values of the cells left
  missing and the conversion of the dtypes); it hands back the parent table or the
  error raised.

  The second part, lines 348-464, works on the where-filtered, windowed child table.
\<close>

definition agg_after_window ::
  "(column \<Rightarrow> column option) \<Rightarrow> (nat \<Rightarrow> string) \<Rightarrow>
   (agg_plan \<Rightarrow> feature list \<Rightarrow> string \<Rightarrow> string \<Rightarrow> frame \<Rightarrow> frame \<Rightarrow> error + frame) \<Rightarrow>
   entity \<Rightarrow> entity \<Rightarrow> string \<Rightarrow> feature list \<Rightarrow> entity_frames \<Rightarrow> frame \<Rightarrow> frame \<Rightarrow>
   error + entity_frames" where
  "agg_after_window astype_object uuid1 aggregate ent child_entity groupby_var fs' entity_frames
     frame base_frame =
     (case agg_no_instances astype_object ent child_entity groupby_var frame base_frame of
        Inl e \<Rightarrow> Inl e
      | Inr no_instances \<Rightarrow>
      (case agg_should_default base_frame no_instances of
        Inl e \<Rightarrow> Inl e
      | Inr True \<Rightarrow>
          (case agg_write_defaults fs' frame of
             Inl e \<Rightarrow> Inl e
           | Inr frame' \<Rightarrow> Inr (entity_frames(eid ent \<mapsto> frame')))
      | Inr False \<Rightarrow>
          (case agg_partition uuid1 0 fs' empty_plan of
             Inl e \<Rightarrow> Inl e
           | Inr plan \<Rightarrow>
               (case aggregate plan fs' (eindex ent) groupby_var frame base_frame of
                  Inl e \<Rightarrow> Inl e
                | Inr frame' \<Rightarrow> Inr (entity_frames(eid ent \<mapsto> frame'))))))"

text \<open>
  The first part, lines 300-346: the features left to compute, the where clause, the
  link variable and the window; then the second part.
\<close>

definition calculate_agg_features ::
  "(column \<Rightarrow> column option) \<Rightarrow> (nat \<Rightarrow> string) \<Rightarrow>
   (agg_plan \<Rightarrow> feature list \<Rightarrow> string \<Rightarrow> string \<Rightarrow> frame \<Rightarrow> frame \<Rightarrow> error + frame) \<Rightarrow>
   backend \<Rightarrow> int \<Rightarrow> feature list \<Rightarrow> entity_frames \<Rightarrow> error + entity_frames" where
  "calculate_agg_features astype_object uuid1 aggregate self time_last fs entity_frames =
     (case fs of
        [] \<Rightarrow> Inl (IndexError ''list index out of range'')
      | test_feature # _ \<Rightarrow>
      (case base_features test_feature of
        [] \<Rightarrow> Inl (IndexError ''list index out of range'')
      | bf0 # _ \<Rightarrow>
      (let use_prev = use_previous test_feature;
           w = where_f test_feature;
           ent = entity test_feature;
           child_entity = entity bf0
       in case (entity_frames (eid ent), entity_frames (eid child_entity)) of
         (Some frame, Some base_frame) \<Rightarrow>
           (let fs' = filter (\<lambda>f. get_name f \<notin> set (col_names frame)) fs
            in if length fs' = 0 then Inr entity_frames
            else
            (case agg_where_filter w base_frame of
              Inl e \<Rightarrow> Inl e
            | Inr base_frame1 \<Rightarrow>
            (let relationship_path =
                   find_backward_path (entityset self) (eid ent) (eid child_entity);
                 groupby_var = get_link_variable_name (entityset self) relationship_path
             in case agg_use_previous use_prev time_last child_entity groupby_var base_frame1 of
              Inl e \<Rightarrow> Inl e
            | Inr base_frame2 \<Rightarrow>
                agg_after_window astype_object uuid1 aggregate ent child_entity groupby_var fs'
                  entity_frames frame base_frame2)))
       | _ \<Rightarrow> Inl (AssertionError []))))"

text \<open>\<open>_feature_type_handler\<close>, applied to a group: the calculator of the first feature's kind.\<close>

definition feature_type_handler ::
  "(column \<Rightarrow> column option) \<Rightarrow> (nat \<Rightarrow> string) \<Rightarrow>
   (agg_plan \<Rightarrow> feature list \<Rightarrow> string \<Rightarrow> string \<Rightarrow> frame \<Rightarrow> frame \<Rightarrow> error + frame) \<Rightarrow>
   backend \<Rightarrow> int \<Rightarrow> feature \<Rightarrow> feature list \<Rightarrow> entity_frames \<Rightarrow> error + entity_frames" where
  "feature_type_handler astype_object uuid1 aggregate self time_last f =
     (case kind f of
        TransformPrimitive \<Rightarrow> calculate_transform_features time_last
      | DirectFeature \<Rightarrow> calculate_direct_features self
      | AggregationPrimitive \<Rightarrow> calculate_agg_features astype_object uuid1 aggregate self time_last
      | IdentityFeature \<Rightarrow> calculate_identity_features
      | OtherFeature \<Rightarrow> (\<lambda>group entity_frames. Inl UnknownFeature))"

section \<open>A small entity set\<close>

text \<open>
  Customers and their sessions, linked by the sessions' column \<open>customer_id\<close>; the
  concrete tables and features the theorems below are exercised on.
\<close>

definition customers :: entity where
  "customers = \<lparr>eid = ''customers'', eindex = ''id'', time_index = None\<rparr>"

definition sessions :: entity where
  "sessions = \<lparr>eid = ''sessions'', eindex = ''id'', time_index = Some ''time''\<rparr>"

definition sessions_to_customers :: relationship where
  "sessions_to_customers =
     \<lparr>parent_entity_id = ''customers'', parent_variable = ''id'',
      child_entity_id = ''sessions'', child_variable = ''customer_id''\<rparr>"

definition shop :: entityset where
  "shop =
     \<lparr>entities = [''customers'' \<mapsto> customers, ''sessions'' \<mapsto> sessions],
      find_forward_path = (\<lambda>a b. if a = ''sessions'' \<and> b = ''customers''
                                    then [sessions_to_customers] else []),
      find_backward_path = (\<lambda>a b. if a = ''customers'' \<and> b = ''sessions''
                                     then [sessions_to_customers] else []),
      get_link_variable_name = (\<lambda>path. case path of [] \<Rightarrow> [] | r # _ \<Rightarrow> child_variable r)\<rparr>"

text \<open>Primitive bodies: the number of values, and doubling every value.\<close>

definition count_func :: "val list list \<Rightarrow> int option \<Rightarrow> val" where
  "count_func cols t = (case cols of [] \<Rightarrow> IntV 0 | c # _ \<Rightarrow> IntV (int (length c)))"

fun double_val :: "val \<Rightarrow> val" where
  "double_val (IntV i) = IntV (2 * i)"
| "double_val v = v"

definition double_func :: "val list list \<Rightarrow> int option \<Rightarrow> val" where
  "double_func cols t = (case cols of [] \<Rightarrow> ListV [] | c # _ \<Rightarrow> ListV (map double_val c))"

definition identity_feature :: "string \<Rightarrow> entity \<Rightarrow> feature" where
  "identity_feature n e =
     Feature IdentityFeature n e [] None None NaN False False None count_func"

definition age :: feature where
  "age = identity_feature ''age'' customers"

definition session_id :: feature where
  "session_id = identity_feature ''id'' sessions"

definition amount :: feature where
  "amount = identity_feature ''amount'' sessions"

definition big :: feature where
  "big = identity_feature ''big'' sessions"

definition count_sessions :: feature where
  "count_sessions =
     Feature AggregationPrimitive ''COUNT(sessions)'' customers [session_id] None None
       (IntV 0) False False None count_func"

definition double_age :: feature where
  "double_age =
     Feature TransformPrimitive ''DOUBLE(age)'' customers [age] None None
       NaN False False None double_func"

definition customers_count :: feature where
  "customers_count =
     Feature DirectFeature ''customers.COUNT(sessions)'' sessions [count_sessions] None None
       (IntV 0) False False (Some customers) count_func"

definition sessions_amount :: feature where
  "sessions_amount =
     Feature DirectFeature ''sessions.amount'' customers [amount] None None
       NaN False False (Some sessions) count_func"

definition shop_backend :: backend where
  "shop_backend =
     \<lparr>entityset = shop, target_eid = ''customers'', features = [count_sessions, double_age]\<rparr>"

text \<open>
  The customers' table (three rows) and the sessions' table (four rows): the sessions
  10 and 11 belong to customer 1, session 12 to customer 2, and session 13 names a
  customer 4 that the customers' table does not have.
\<close>

definition customers_df :: frame where
  "customers_df =
     \<lparr>index = [IntV 1, IntV 2, IntV 3],
      columns = [(''id'', \<lparr>dtype = Int64, vals = [IntV 1, IntV 2, IntV 3]\<rparr>),
                 (''age'', \<lparr>dtype = Int64, vals = [IntV 30, IntV 40, IntV 50]\<rparr>)]\<rparr>"

definition sessions_df :: frame where
  "sessions_df =
     \<lparr>index = [IntV 10, IntV 11, IntV 12, IntV 13],
      columns = [(''id'', \<lparr>dtype = Int64, vals = [IntV 10, IntV 11, IntV 12, IntV 13]\<rparr>),
                 (''customer_id'', \<lparr>dtype = Int64, vals = [IntV 1, IntV 1, IntV 2, IntV 4]\<rparr>),
                 (''amount'', \<lparr>dtype = Int64, vals = [IntV 5, IntV 7, IntV 9, IntV 11]\<rparr>),
                 (''time'', \<lparr>dtype = Datetime64, vals = [TimeV 100, TimeV 200, TimeV 300, TimeV 400]\<rparr>),
                 (''big'', \<lparr>dtype = Bool, vals = [BoolV False, BoolV True, BoolV True, BoolV True]\<rparr>)]\<rparr>"

definition shop_frames :: entity_frames where
  "shop_frames = [''customers'' \<mapsto> customers_df, ''sessions'' \<mapsto> sessions_df]"

text \<open>A coercion to object that succeeds, and one that fails on every column.\<close>

definition astype_ok :: "column \<Rightarrow> column option" where
  "astype_ok c = Some (c\<lparr>dtype := Object\<rparr>)"

definition astype_fails :: "column \<Rightarrow> column option" where
  "astype_fails c = None"

text \<open>
  The base features \<open>_can_agg\<close> counts: all of them for a feature without a where
  clause, otherwise those whose name is not the name of the where feature.
\<close>

definition counted_base_features :: "feature \<Rightarrow> feature list" where
  "counted_base_features f =
     (case where_f f of
        None \<Rightarrow> base_features f
      | Some w \<Rightarrow> filter (\<lambda>b. get_name b \<noteq> get_name w) (base_features f))"

text \<open>
  Two aggregations over the sessions with the where clause \<open>big\<close>: the number of true
  values of \<open>big\<close> itself, and a count that lists the where feature among its base
  features.
\<close>

definition num_true_big :: feature where
  "num_true_big =
     Feature AggregationPrimitive ''NUM_TRUE(sessions.big WHERE big)'' customers [big]
       (Some big) None (IntV 0) False False None count_func"

definition count_amount_big :: feature where
  "count_amount_big =
     Feature AggregationPrimitive ''COUNT(sessions.amount WHERE big)'' customers [amount, big]
       (Some big) None (IntV 0) False False None count_func"

definition uuid_of :: "nat \<Rightarrow> string" where
  "uuid_of k = replicate (Suc k) (CHR ''u'')"

text \<open>
  The condition under which \<open>_can_agg\<close> answers yes: exactly one counted base feature,
  not time-aware, not expanding.
\<close>

definition simple_aggregable :: "feature \<Rightarrow> bool" where
  "simple_aggregable f =
     (length (counted_base_features f) = 1 \<and> \<not> uses_calc_time f \<and> \<not> expanding f)"




definition customers_counted_df :: frame where
  "customers_counted_df =
     \<lparr>index = [IntV 1, IntV 2, IntV 3],
      columns = [(''id'', \<lparr>dtype = Int64, vals = [IntV 1, IntV 2, IntV 3]\<rparr>),
                 (''COUNT(sessions)'', \<lparr>dtype = Int64, vals = [IntV 7, IntV 8, IntV 9]\<rparr>)]\<rparr>"

definition no_sessions_df :: frame where
  "no_sessions_df =
     \<lparr>index = [],
      columns = [(''id'', \<lparr>dtype = Int64, vals = []\<rparr>),
                 (''customer_id'', \<lparr>dtype = Int64, vals = []\<rparr>),
                 (''amount'', \<lparr>dtype = Int64, vals = []\<rparr>),
                 (''time'', \<lparr>dtype = Datetime64, vals = []\<rparr>),
                 (''big'', \<lparr>dtype = Bool, vals = []\<rparr>)]\<rparr>"

text \<open>A grouped computation that leaves the parent table as it is.\<close>

definition no_aggregate ::
  "agg_plan \<Rightarrow> feature list \<Rightarrow> string \<Rightarrow> string \<Rightarrow> frame \<Rightarrow> frame \<Rightarrow> error + frame" where
  "no_aggregate plan fs index_var groupby_var frame base_frame = Inr frame"


text \<open>A sessions' table whose link column holds the customers' ids as text.\<close>

definition text_sessions_df :: frame where
  "text_sessions_df =
     \<lparr>index = [IntV 30, IntV 31],
      columns = [(''id'', \<lparr>dtype = Int64, vals = [IntV 30, IntV 31]\<rparr>),
                 (''customer_id'', \<lparr>dtype = Object, vals = [StrV ''1'', StrV ''2'']\<rparr>)]\<rparr>"









text \<open>\<open>f.base_features[0].get_name()\<close>, for a feature that has a base feature.\<close>

definition base_name :: "feature \<Rightarrow> string" where
  "base_name f = (case base_features f of [] \<Rightarrow> [] | b # _ \<Rightarrow> get_name b)"

text \<open>The position of the first row whose label is the given key, if there is one.\<close>

definition first_match :: "val list \<Rightarrow> val \<Rightarrow> nat option" where
  "first_match ridx k =
     (case filter (\<lambda>j. ridx ! j = k) [0..<length ridx] of [] \<Rightarrow> None | j # _ \<Rightarrow> Some j)"

section \<open>The table of defaults\<close>

lemma frame_of_rows_replicate:
  assumes "length row = length names"
  shows "frame_of_rows (replicate n row) names ids =
     \<lparr>index = ids, columns = map (\<lambda>(c, v). (c, mk_column (replicate n v))) (zip names row)\<rparr>"
proof -
  have "map (\<lambda>j. (names ! j, mk_column (map (\<lambda>r. r ! j) (replicate n row)))) [0..<length names]
        = map (\<lambda>(c, v). (c, mk_column (replicate n v))) (zip names row)"
    using assms by (intro nth_equalityI) simp_all
  then show ?thesis by (simp add: frame_of_rows_def)
qed

lemma generate_default_df_None:
  "generate_default_df self ids None =
     \<lparr>index = ids,
      columns = map (\<lambda>f. (get_name f, mk_column (replicate (length ids) (default_value f))))
                  (features self)\<rparr>"
  by (simp add: generate_default_df_def default_row_def default_cols_def
        frame_of_rows_replicate zip_map_map zip_same_conv_map)

text \<open>
  Claim C2.  When the slice provider returns the no-data sentinel for a non-empty batch,
  \<open>calculate_all_features\<close> returns at once, whatever the calculators would do: the
  table has the requested ids as its rows and one column per requested feature, in
  the order of the features, and every cell of the column of a feature is the
  feature's declared default value.
\<close>

theorem no_data_gives_defaults:
  assumes "instance_ids \<noteq> []"
    and "entities (entityset self) (target_eid self) = Some target_entity"
  shows "\<exists>r. calculate_all_features self instance_ids None run_groups = Inr r
           \<and> index r = instance_ids
           \<and> map (\<lambda>(n, c). (n, vals c)) (columns r)
               = map (\<lambda>f. (get_name f, replicate (length instance_ids) (default_value f)))
                   (features self)
           \<and> (\<forall>i < length instance_ids. \<forall>j < length (features self).
                 fst (columns r ! j) = get_name (features self ! j)
               \<and> vals (snd (columns r ! j)) ! i = default_value (features self ! j))"
  using assms
  by (simp add: calculate_all_features_def generate_default_df_None mk_column_def)

theorem no_data_gives_defaults_witness:
  "[IntV 1, IntV 2] \<noteq> []
   \<and> entities (entityset shop_backend) (target_eid shop_backend) = Some customers
   \<and> (\<exists>r. calculate_all_features shop_backend [IntV 1, IntV 2] None (\<lambda>efs. Inr efs) = Inr r
           \<and> index r = [IntV 1, IntV 2]
           \<and> map (\<lambda>(n, c). (n, vals c)) (columns r)
               = [(''COUNT(sessions)'', [IntV 0, IntV 0]), (''DOUBLE(age)'', [NaN, NaN])])"
proof -
  have h: "entities (entityset shop_backend) (target_eid shop_backend) = Some customers"
    by (simp add: shop_backend_def shop_def)
  have fs: "map (\<lambda>f. (get_name f, replicate (length [IntV 1, IntV 2]) (default_value f)))
              (features shop_backend)
            = [(''COUNT(sessions)'', [IntV 0, IntV 0]), (''DOUBLE(age)'', [NaN, NaN])]"
    by (simp add: shop_backend_def count_sessions_def double_age_def)
  show ?thesis
    using no_data_gives_defaults [of "[IntV 1, IntV 2]" shop_backend customers "\<lambda>efs. Inr efs"]
          h fs
    by auto
qed

section \<open>Rejected requests\<close>

text \<open>
  Claim C3.  An empty instance batch makes \<open>calculate_all_features\<close> fail with the
  assertion's error, whatever the slice provider returned and whatever the calculators
  would do (they are not consulted), and the construction of the backend fails with an
  assertion error whenever two of the requested features are defined on different
  entities.  Both results are errors: no table and no backend is produced.
\<close>

theorem empty_batch_and_mixed_entities_rejected:
  "calculate_all_features self [] eframes_by_filter run_groups
     = Inl (AssertionError ''0 instance ids provided'')
   \<and> ((\<exists>f \<in> set fs. \<exists>g \<in> set fs. eid (entity f) \<noteq> eid (entity g)) \<longrightarrow>
        PandasBackend es fs
          = Inl (AssertionError ''Features must all be defined on the same entity''))"
proof -
  have "length (remdups (map (\<lambda>f. eid (entity f)) fs)) \<noteq> 1"
    if "f \<in> set fs" "g \<in> set fs" "eid (entity f) \<noteq> eid (entity g)" for f g
  proof
    assume "length (remdups (map (\<lambda>f. eid (entity f)) fs)) = 1"
    then have "card (set (map (\<lambda>f. eid (entity f)) fs)) = 1"
      using card_set [of "map (\<lambda>f. eid (entity f)) fs"] by presburger
    then obtain x where "set (map (\<lambda>f. eid (entity f)) fs) = {x}"
      by (auto simp: card_1_singleton_iff)
    moreover have "eid (entity f) \<in> set (map (\<lambda>f. eid (entity f)) fs)"
      and "eid (entity g) \<in> set (map (\<lambda>f. eid (entity f)) fs)"
      using that by simp_all
    ultimately show False using that(3) by simp
  qed
  then show ?thesis
    by (auto simp: calculate_all_features_def PandasBackend_def)
qed

theorem empty_batch_and_mixed_entities_rejected_witness:
  "calculate_all_features shop_backend [] None (\<lambda>efs. Inr efs)
     = Inl (AssertionError ''0 instance ids provided'')
   \<and> (\<exists>f \<in> set [count_sessions, customers_count]. \<exists>g \<in> set [count_sessions, customers_count].
         eid (entity f) \<noteq> eid (entity g))
   \<and> PandasBackend shop [count_sessions, customers_count]
       = Inl (AssertionError ''Features must all be defined on the same entity'')"
proof -
  have h: "\<exists>f \<in> set [count_sessions, customers_count].
             \<exists>g \<in> set [count_sessions, customers_count]. eid (entity f) \<noteq> eid (entity g)"
  proof (intro bexI)
    show "eid (entity count_sessions) \<noteq> eid (entity customers_count)"
      by (simp add: count_sessions_def customers_count_def customers_def sessions_def)
  qed simp_all
  show ?thesis
    using empty_batch_and_mixed_entities_rejected
            [of shop_backend None "\<lambda>efs. Inr efs" "[count_sessions, customers_count]" shop] h
    by blast
qed

section \<open>The two buckets of the aggregation calculator\<close>

lemma can_agg_counted:
  "kind f = AggregationPrimitive \<Longrightarrow>
   can_agg f = Inr (length (counted_base_features f) = 1 \<and> \<not> uses_calc_time f \<and> \<not> expanding f)"
  by (auto simp: can_agg_def counted_base_features_def Let_def filter_map comp_def split: option.splits)

lemma put_col_append_length:
  "length (concat (map snd (put_col v ((case map_of d v of None \<Rightarrow> [] | Some l \<Rightarrow> l) @ [x]) d)))
   = Suc (length (concat (map snd d)))"
  by (induction d) auto

lemma put_col_append_set:
  "set (concat (map snd (put_col v ((case map_of d v of None \<Rightarrow> [] | Some l \<Rightarrow> l) @ [x]) d)))
   = insert x (set (concat (map snd d)))"
proof (induction d)
  case Nil
  then show ?case by simp
next
  case (Cons p d)
  obtain a b where p: "p = (a, b)" by (cases p)
  show ?case
  proof (cases "a = v")
    case True
    then show ?thesis by (simp add: p insert_commute Un_commute Un_left_commute Un_assoc)
  next
    case False
    then have "put_col v ((case map_of (p # d) v of None \<Rightarrow> [] | Some l \<Rightarrow> l) @ [x]) (p # d)
               = p # put_col v ((case map_of d v of None \<Rightarrow> [] | Some l \<Rightarrow> l) @ [x]) d"
      by (simp add: p)
    then show ?thesis using Cons.IH by (simp add: Un_insert_right)
  qed
qed

lemma put_col_values: "set (map snd (put_col k v d)) \<subseteq> insert v (set (map snd d))"
proof (induction d)
  case Nil
  then show ?case by simp
next
  case (Cons p d)
  then show ?case by (cases p) auto
qed

lemma counted_nonempty:
  "length (counted_base_features f) = 1 \<Longrightarrow> base_features f \<noteq> []"
  by (auto simp: counted_base_features_def split: option.splits)

lemma agg_partition_buckets:
  assumes "\<forall>f \<in> set fs. kind f = AggregationPrimitive"
  shows "\<exists>plan'. agg_partition uuid1 k fs plan = Inr plan'
     \<and> set (to_apply plan') = set (to_apply plan) \<union> {f \<in> set fs. can_agg f = Inr False}
     \<and> length (concat (map snd (to_agg plan')))
         = length (concat (map snd (to_agg plan))) + length (filter (\<lambda>f. can_agg f = Inr True) fs)
     \<and> snd ` set (concat (map snd (to_agg plan')))
         = snd ` set (concat (map snd (to_agg plan))) \<union> get_function ` {f \<in> set fs. can_agg f = Inr True}
     \<and> set (map snd (agg_rename plan'))
         \<subseteq> set (map snd (agg_rename plan)) \<union> get_name ` {f \<in> set fs. can_agg f = Inr True}"
  using assms
proof (induction fs arbitrary: k plan)
  case Nil
  then show ?case by simp
next
  case (Cons f fs)
  have kf: "kind f = AggregationPrimitive" and rest: "\<forall>g \<in> set fs. kind g = AggregationPrimitive"
    using Cons.prems by simp_all
  show ?case
  proof (cases "can_agg f = Inr True")
    case ca: True
    then have "length (counted_base_features f) = 1" using can_agg_counted [OF kf] by simp
    then obtain bf0 bfs where bf: "base_features f = bf0 # bfs"
      using counted_nonempty [of f] by (cases "base_features f") auto
    define plan1 where "plan1 = plan\<lparr>to_agg := put_col (get_name bf0)
          ((case map_of (to_agg plan) (get_name bf0) of None \<Rightarrow> [] | Some l \<Rightarrow> l) @ [(uuid1 k, get_function f)])
          (to_agg plan),
        agg_rename := put_col (get_name bf0 @ ''-'' @ uuid1 k) (get_name f) (agg_rename plan)\<rparr>"
    have step: "agg_partition uuid1 k (f # fs) plan = agg_partition uuid1 (Suc k) fs plan1"
      by (simp add: ca bf plan1_def Let_def)
    from Cons.IH [OF rest, of "Suc k" plan1] obtain plan' where
      ih: "agg_partition uuid1 (Suc k) fs plan1 = Inr plan'
      \<and> set (to_apply plan') = set (to_apply plan1) \<union> {f \<in> set fs. can_agg f = Inr False}
      \<and> length (concat (map snd (to_agg plan')))
         = length (concat (map snd (to_agg plan1))) + length (filter (\<lambda>f. can_agg f = Inr True) fs)
      \<and> snd ` set (concat (map snd (to_agg plan')))
         = snd ` set (concat (map snd (to_agg plan1))) \<union> get_function ` {f \<in> set fs. can_agg f = Inr True}
      \<and> set (map snd (agg_rename plan'))
         \<subseteq> set (map snd (agg_rename plan1)) \<union> get_name ` {f \<in> set fs. can_agg f = Inr True}"
      ..
    note p = ih [THEN conjunct1]
    note a = ih [THEN conjunct2, THEN conjunct1]
    note l = ih [THEN conjunct2, THEN conjunct2, THEN conjunct1]
    note s = ih [THEN conjunct2, THEN conjunct2, THEN conjunct2, THEN conjunct1]
    note r = ih [THEN conjunct2, THEN conjunct2, THEN conjunct2, THEN conjunct2]
    have split_T: "{g \<in> set (f # fs). can_agg g = Inr True} = insert f {g \<in> set fs. can_agg g = Inr True}"
      using ca by auto
    have split_F: "{g \<in> set (f # fs). can_agg g = Inr False} = {g \<in> set fs. can_agg g = Inr False}"
      using ca by auto
    have a1: "to_apply plan1 = to_apply plan" by (simp add: plan1_def)
    have l1: "length (concat (map snd (to_agg plan1))) = Suc (length (concat (map snd (to_agg plan))))"
      using put_col_append_length [of "get_name bf0" "to_agg plan" "(uuid1 k, get_function f)"]
      by (simp add: plan1_def)
    have s1: "set (concat (map snd (to_agg plan1)))
               = insert (uuid1 k, get_function f) (set (concat (map snd (to_agg plan))))"
      using put_col_append_set [of "get_name bf0" "to_agg plan" "(uuid1 k, get_function f)"]
      by (simp add: plan1_def)
    have r1: "set (map snd (agg_rename plan1)) \<subseteq> insert (get_name f) (set (map snd (agg_rename plan)))"
      using put_col_values [of "get_name bf0 @ ''-'' @ uuid1 k" "get_name f" "agg_rename plan"]
      by (simp add: plan1_def)
    have r2: "set (map snd (agg_rename plan'))
         \<subseteq> set (map snd (agg_rename plan)) \<union> get_name ` {g \<in> set (f # fs). can_agg g = Inr True}"
      unfolding split_T using r r1 by blast
    have s2: "snd ` set (concat (map snd (to_agg plan')))
         = snd ` set (concat (map snd (to_agg plan))) \<union> get_function ` {g \<in> set (f # fs). can_agg g = Inr True}"
      unfolding split_T s s1 by simp
    have a2: "set (to_apply plan') = set (to_apply plan) \<union> {g \<in> set (f # fs). can_agg g = Inr False}"
      unfolding split_F a a1 ..
    have l2: "length (concat (map snd (to_agg plan')))
         = length (concat (map snd (to_agg plan))) + length (filter (\<lambda>f. can_agg f = Inr True) (f # fs))"
      unfolding l l1 using ca by simp
    show ?thesis
      unfolding step using p a2 l2 s2 r2 by (intro exI [of _ plan'] conjI)
  next
    case False
    then have ca: "can_agg f = Inr False" using can_agg_counted [OF kf] by auto
    define plan1 where "plan1 = plan\<lparr>to_apply := List.insert f (to_apply plan)\<rparr>"
    have step: "agg_partition uuid1 k (f # fs) plan = agg_partition uuid1 k fs plan1"
      by (simp add: ca plan1_def)
    from Cons.IH [OF rest, of k plan1] obtain plan' where
      ih: "agg_partition uuid1 k fs plan1 = Inr plan'
      \<and> set (to_apply plan') = set (to_apply plan1) \<union> {f \<in> set fs. can_agg f = Inr False}
      \<and> length (concat (map snd (to_agg plan')))
         = length (concat (map snd (to_agg plan1))) + length (filter (\<lambda>f. can_agg f = Inr True) fs)
      \<and> snd ` set (concat (map snd (to_agg plan')))
         = snd ` set (concat (map snd (to_agg plan1))) \<union> get_function ` {f \<in> set fs. can_agg f = Inr True}
      \<and> set (map snd (agg_rename plan'))
         \<subseteq> set (map snd (agg_rename plan1)) \<union> get_name ` {f \<in> set fs. can_agg f = Inr True}"
      ..
    note p = ih [THEN conjunct1]
    note a = ih [THEN conjunct2, THEN conjunct1]
    note l = ih [THEN conjunct2, THEN conjunct2, THEN conjunct1]
    note s = ih [THEN conjunct2, THEN conjunct2, THEN conjunct2, THEN conjunct1]
    note r = ih [THEN conjunct2, THEN conjunct2, THEN conjunct2, THEN conjunct2]
    have split_T: "{g \<in> set (f # fs). can_agg g = Inr True} = {g \<in> set fs. can_agg g = Inr True}"
      using ca by auto
    have split_F: "{g \<in> set (f # fs). can_agg g = Inr False} = insert f {g \<in> set fs. can_agg g = Inr False}"
      using ca by auto
    have p1: "to_agg plan1 = to_agg plan" "agg_rename plan1 = agg_rename plan"
      "set (to_apply plan1) = insert f (set (to_apply plan))"
      by (simp_all add: plan1_def)
    have r2: "set (map snd (agg_rename plan'))
         \<subseteq> set (map snd (agg_rename plan)) \<union> get_name ` {g \<in> set (f # fs). can_agg g = Inr True}"
      unfolding split_T using r p1(2) by simp
    have s2: "snd ` set (concat (map snd (to_agg plan')))
         = snd ` set (concat (map snd (to_agg plan))) \<union> get_function ` {g \<in> set (f # fs). can_agg g = Inr True}"
      unfolding split_T s p1(1) ..
    have a2: "set (to_apply plan') = set (to_apply plan) \<union> {g \<in> set (f # fs). can_agg g = Inr False}"
      unfolding split_F a p1(3) by simp
    have l2: "length (concat (map snd (to_agg plan')))
         = length (concat (map snd (to_agg plan))) + length (filter (\<lambda>f. can_agg f = Inr True) (f # fs))"
      unfolding l p1(1) using ca by simp
    show ?thesis
      unfolding step using p a2 l2 s2 r2 by (intro exI [of _ plan'] conjI)
  qed
qed

lemma can_agg_simple:
  "kind f = AggregationPrimitive \<Longrightarrow> can_agg f = Inr (simple_aggregable f)"
  by (simp add: can_agg_counted simple_aggregable_def)

text \<open>
  Claim C9, as stated, fails: \<open>NUM_TRUE(sessions.big WHERE big)\<close> has exactly one base
  feature, is not time-aware and is not expanding, yet \<open>_can_agg\<close> answers no and the
  feature goes to the per-group apply path, because its only base feature is its where
  feature and \<open>_can_agg\<close> does not count base features of that name.
\<close>

theorem one_base_feature_not_simple:
  "kind num_true_big = AggregationPrimitive
   \<and> length (base_features num_true_big) = 1
   \<and> uses_calc_time num_true_big = False
   \<and> expanding num_true_big = False
   \<and> can_agg num_true_big = Inr False
   \<and> agg_partition uuid_of 0 [num_true_big] empty_plan
       = Inr \<lparr>to_agg = [], agg_rename = [], to_apply = [num_true_big]\<rparr>"
  by (simp add: can_agg_def num_true_big_def big_def identity_feature_def empty_plan_def)

text \<open>
  Claim C9, amended.  The base features that count are those whose name is not the name
  of the feature's where feature (all of them when it has none).  For a group of
  aggregation features the partition succeeds; \<open>_can_agg\<close> answers yes for a feature
  if and only if exactly one counted base feature remains, the feature is not
  time-aware and it is not expanding; the features for which it answers no, and only
  they, are put in \<open>to_apply\<close> (the per-group apply path); \<open>to_agg\<close> receives one
  function per feature for which it answers yes, the function of that feature, and
  \<open>agg_rename\<close> names only such features.
\<close>

theorem simple_bucket_iff_counted:
  assumes "\<forall>f \<in> set fs. kind f = AggregationPrimitive"
  shows "\<exists>plan. agg_partition uuid1 0 fs empty_plan = Inr plan
     \<and> (\<forall>f \<in> set fs. can_agg f = Inr (simple_aggregable f))
     \<and> set (to_apply plan) = {f \<in> set fs. \<not> simple_aggregable f}
     \<and> length (concat (map snd (to_agg plan))) = length (filter simple_aggregable fs)
     \<and> snd ` set (concat (map snd (to_agg plan))) = get_function ` {f \<in> set fs. simple_aggregable f}
     \<and> set (map snd (agg_rename plan)) \<subseteq> get_name ` {f \<in> set fs. simple_aggregable f}"
proof -
  have ca: "can_agg f = Inr (simple_aggregable f)" if "f \<in> set fs" for f
    using that assms can_agg_simple by blast
  have T: "{f \<in> set fs. can_agg f = Inr True} = {f \<in> set fs. simple_aggregable f}"
    using ca by auto
  have F: "{f \<in> set fs. can_agg f = Inr False} = {f \<in> set fs. \<not> simple_aggregable f}"
    using ca by auto
  have L: "filter (\<lambda>f. can_agg f = Inr True) fs = filter simple_aggregable fs"
    by (rule filter_cong) (simp_all add: ca)
  from agg_partition_buckets [OF assms, of uuid1 0 empty_plan] obtain plan where
    ih: "agg_partition uuid1 0 fs empty_plan = Inr plan
     \<and> set (to_apply plan) = set (to_apply empty_plan) \<union> {f \<in> set fs. can_agg f = Inr False}
     \<and> length (concat (map snd (to_agg plan)))
         = length (concat (map snd (to_agg empty_plan))) + length (filter (\<lambda>f. can_agg f = Inr True) fs)
     \<and> snd ` set (concat (map snd (to_agg plan)))
         = snd ` set (concat (map snd (to_agg empty_plan))) \<union> get_function ` {f \<in> set fs. can_agg f = Inr True}
     \<and> set (map snd (agg_rename plan))
         \<subseteq> set (map snd (agg_rename empty_plan)) \<union> get_name ` {f \<in> set fs. can_agg f = Inr True}"
    ..
  have e: "to_apply empty_plan = []" "to_agg empty_plan = []" "agg_rename empty_plan = []"
    by (simp_all add: empty_plan_def)
  have 1: "agg_partition uuid1 0 fs empty_plan = Inr plan" using ih by simp
  have 2: "\<forall>f \<in> set fs. can_agg f = Inr (simple_aggregable f)" using ca by simp
  have 3: "set (to_apply plan) = {f \<in> set fs. \<not> simple_aggregable f}"
    using ih [THEN conjunct2, THEN conjunct1] unfolding e F by simp
  have 4: "length (concat (map snd (to_agg plan))) = length (filter simple_aggregable fs)"
    using ih [THEN conjunct2, THEN conjunct2, THEN conjunct1] unfolding e L by simp
  have 5: "snd ` set (concat (map snd (to_agg plan))) = get_function ` {f \<in> set fs. simple_aggregable f}"
    using ih [THEN conjunct2, THEN conjunct2, THEN conjunct2, THEN conjunct1] unfolding e T by simp
  have 6: "set (map snd (agg_rename plan)) \<subseteq> get_name ` {f \<in> set fs. simple_aggregable f}"
    using ih [THEN conjunct2, THEN conjunct2, THEN conjunct2, THEN conjunct2] unfolding e T by simp
  show ?thesis
    using 1 2 3 4 5 6 by (intro exI [of _ plan] conjI)
qed

theorem simple_bucket_iff_counted_witness:
  "kind num_true_big = AggregationPrimitive
   \<and> kind count_amount_big = AggregationPrimitive
   \<and> kind count_sessions = AggregationPrimitive
   \<and> simple_aggregable num_true_big = False
   \<and> simple_aggregable count_amount_big = True
   \<and> simple_aggregable count_sessions = True
   \<and> (\<exists>plan. agg_partition uuid_of 0 [num_true_big, count_amount_big, count_sessions] empty_plan
                = Inr plan
         \<and> set (to_apply plan)
             = {f \<in> set [num_true_big, count_amount_big, count_sessions]. \<not> simple_aggregable f}
         \<and> length (concat (map snd (to_agg plan))) = 2)"
proof -
  have k: "\<forall>f \<in> set [num_true_big, count_amount_big, count_sessions]. kind f = AggregationPrimitive"
    by (simp add: num_true_big_def count_amount_big_def count_sessions_def)
  have s: "simple_aggregable num_true_big = False" "simple_aggregable count_amount_big = True"
    "simple_aggregable count_sessions = True"
    by (simp_all add: simple_aggregable_def counted_base_features_def num_true_big_def
          count_amount_big_def count_sessions_def big_def amount_def identity_feature_def)
  have l: "length (filter simple_aggregable [num_true_big, count_amount_big, count_sessions]) = 2"
    by (simp add: s)
  show ?thesis
    using simple_bucket_iff_counted [OF k, of uuid_of] k s l by auto
qed

section \<open>The flag of the aggregation calculator\<close>

lemma nrows_columns_update [simp]: "nrows (frame\<lparr>columns := cs\<rparr>) = nrows frame"
  by (simp add: nrows_def)

lemma set_default_column_Inr:
  "set_default_column frame f =
     Inr (frame\<lparr>columns := put_col (get_name f)
                               (mk_column (replicate (nrows frame) (default_value f)))
                               (columns frame)\<rparr>)"
  by (simp add: set_default_column_def setitem_list_def setitem_scalar_def Let_def)

lemma agg_write_defaults_Inr: "\<exists>frame'. agg_write_defaults fs frame = Inr frame'"
  by (induction fs arbitrary: frame) (simp_all add: set_default_column_Inr)

lemma agg_write_defaults_no_error: "agg_write_defaults fs frame \<noteq> Inl e"
  using agg_write_defaults_Inr [of fs frame] by auto

lemma agg_partition_no_unbound:
  "agg_partition uuid1 k fs plan \<noteq> Inl (UnboundLocalError s)"
  by (induction fs arbitrary: k plan)
     (auto simp: can_agg_def Let_def split: sum.splits bool.splits list.splits if_splits)

lemma agg_where_filter_no_unbound: "agg_where_filter w bf \<noteq> Inl (UnboundLocalError s)"
  by (auto simp: agg_where_filter_def getitem_def split: option.splits sum.splits if_splits)

lemma agg_use_previous_no_unbound:
  "agg_use_previous up t ce gv bf \<noteq> Inl (UnboundLocalError s)"
  by (auto simp: agg_use_previous_def getitem_def Let_def split: option.splits sum.splits if_splits)

lemma agg_no_instances_no_unbound:
  "agg_no_instances a e ce gv fr bf \<noteq> Inl (UnboundLocalError s)"
  by (auto simp: agg_no_instances_def getitem_def Let_def split: option.splits sum.splits if_splits)

lemma no_instances_read:
  assumes "agg_no_instances astype_object ent child_entity groupby_var frame base_frame = Inr flag"
  shows "agg_should_default base_frame flag = Inr (empty base_frame \<or> flag = Some True)"
  using assms
  by (auto simp: agg_no_instances_def agg_should_default_def Let_def
           split: if_splits sum.splits option.splits)

lemma sum_case_neqI:
  "m \<noteq> Inl E \<Longrightarrow> (\<And>x. m = Inr x \<Longrightarrow> g x \<noteq> Inl E)
   \<Longrightarrow> (case m of Inl e \<Rightarrow> Inl e | Inr x \<Rightarrow> g x) \<noteq> Inl E"
  by (cases m) auto

lemma calculate_agg_features_no_unbound:
  assumes "\<And>p f i g a b. aggregate p f i g a b \<noteq> Inl (UnboundLocalError ''no_instances'')"
  shows "calculate_agg_features astype_object uuid1 aggregate self time_last fs entity_frames
       \<noteq> Inl (UnboundLocalError ''no_instances'')"
  unfolding calculate_agg_features_def agg_after_window_def Let_def
  apply (simp split: list.split option.split)
  apply (intro allI impI conjI sum_case_neqI agg_where_filter_no_unbound
      agg_use_previous_no_unbound agg_no_instances_no_unbound)
   apply (simp add: no_instances_read)
  apply (simp add: no_instances_read split: bool.split)
  apply (intro allI impI conjI sum_case_neqI agg_write_defaults_no_error
      agg_partition_no_unbound assms)
  apply simp_all
  done

text \<open>
  Claim C10, as stated, fails: no execution of the aggregation calculator reads the flag
  \<open>no_instances\<close> while it is unassigned.  Reading it unassigned would raise
  UnboundLocalError; whatever the inputs, the calculator does not raise it (as long as
  the grouped computation that follows the check, which has no such flag, does not).
\<close>

theorem flag_never_read_unassigned:
  "\<not> (\<exists>astype_object uuid1 aggregate self time_last fs entity_frames.
        (\<forall>p f i g a b. aggregate p f i g a b \<noteq> Inl (UnboundLocalError ''no_instances''))
      \<and> calculate_agg_features astype_object uuid1 aggregate self time_last fs entity_frames
          = Inl (UnboundLocalError ''no_instances''))"
  using calculate_agg_features_no_unbound by blast

text \<open>
  Claim C10, amended.  In every execution of the aggregation calculator the flag is
  assigned before it is read.  The lines that compute the flag leave it unassigned
  exactly when the child table is empty, and then the check
  \<open>base_frame.empty or no_instances\<close> is true by its first operand and does not read
  the flag; when the child table is not empty one of the three branches has assigned
  it (or raised), and the check is the flag's value.
\<close>

theorem flag_assigned_when_read:
  assumes "agg_no_instances astype_object ent child_entity groupby_var frame base_frame = Inr flag"
  shows "(flag = None \<longleftrightarrow> empty base_frame)
       \<and> agg_should_default base_frame flag = Inr (empty base_frame \<or> flag = Some True)"
  using assms
  by (auto simp: agg_no_instances_def agg_should_default_def Let_def
           split: if_splits sum.splits option.splits)

theorem flag_assigned_when_read_witness:
  "agg_no_instances astype_ok customers sessions ''customer_id'' customers_df sessions_df
     = Inr (Some False)
   \<and> empty sessions_df = False
   \<and> agg_should_default sessions_df (Some False) = Inr False"
proof -
  have h: "agg_no_instances astype_ok customers sessions ''customer_id'' customers_df sessions_df
             = Inr (Some False)"
    by (simp add: agg_no_instances_def customers_def sessions_def customers_df_def
          sessions_df_def empty_def nrows_def col_names_def getitem_def
          check_no_related_instances_def str_find_def)
  show ?thesis
    using flag_assigned_when_read [OF h] h by simp
qed

section \<open>Default values when no child row is related\<close>







lemma getitem_col_names: "getitem df n = Inr c \<Longrightarrow> n \<in> set (col_names df)"
  by (auto simp: getitem_def col_names_def split: option.splits dest: map_of_SomeD intro: rev_image_eqI)








section \<open>Join keys of different dtypes\<close>

lemma agg_partition_errors:
  "agg_partition uuid1 k fs plan = Inl e \<Longrightarrow>
   (\<exists>s. e = AssertionError s) \<or> (\<exists>s. e = IndexError s)"
  by (induction fs arbitrary: k plan)
     (auto simp: can_agg_def Let_def split: sum.splits bool.splits list.splits if_splits)

lemma calculate_agg_features_unfold:
  assumes group: "fs = test_feature # rest" "base_features test_feature = bf0 # bfs"
    and frames: "entity_frames (eid (entity test_feature)) = Some frame"
                "entity_frames (eid (entity bf0)) = Some base_frame"
    and fs': "filter (\<lambda>f. get_name f \<notin> set (col_names frame)) fs \<noteq> []"
    and w: "agg_where_filter (where_f test_feature) base_frame = Inr filtered"
    and u: "agg_use_previous (use_previous test_feature) time_last (entity bf0)
              (get_link_variable_name (entityset self)
                 (find_backward_path (entityset self) (eid (entity test_feature)) (eid (entity bf0))))
              filtered = Inr windowed"
  shows "calculate_agg_features astype_object uuid1 aggregate self time_last fs entity_frames
     = (case agg_no_instances astype_object (entity test_feature) (entity bf0)
               (get_link_variable_name (entityset self)
                 (find_backward_path (entityset self) (eid (entity test_feature)) (eid (entity bf0))))
               frame windowed of
          Inl e \<Rightarrow> Inl e
        | Inr no_instances \<Rightarrow>
            (case agg_should_default windowed no_instances of
               Inl e \<Rightarrow> Inl e
             | Inr True \<Rightarrow>
                 (case agg_write_defaults (filter (\<lambda>f. get_name f \<notin> set (col_names frame)) fs) frame of
                    Inl e \<Rightarrow> Inl e
                  | Inr frame' \<Rightarrow> Inr (entity_frames(eid (entity test_feature) \<mapsto> frame')))
             | Inr False \<Rightarrow>
                 (case agg_partition uuid1 0 (filter (\<lambda>f. get_name f \<notin> set (col_names frame)) fs)
                         empty_plan of
                    Inl e \<Rightarrow> Inl e
                  | Inr plan \<Rightarrow>
                      (case aggregate plan (filter (\<lambda>f. get_name f \<notin> set (col_names frame)) fs)
                              (eindex (entity test_feature))
                              (get_link_variable_name (entityset self)
                                (find_backward_path (entityset self) (eid (entity test_feature))
                                   (eid (entity bf0))))
                              frame windowed of
                         Inl e \<Rightarrow> Inl e
                       | Inr frame' \<Rightarrow> Inr (entity_frames(eid (entity test_feature) \<mapsto> frame'))))))"
  unfolding calculate_agg_features_def agg_after_window_def
  by (simp only: group frames fs' [unfolded group(1)] w u Let_def
        list.case option.case sum.case prod.case length_0_conv if_False)

lemma agg_no_instances_coerce:
  assumes "\<not> empty windowed"
    and "getitem frame (eindex ent) = Inr fc" and "getitem windowed groupby_var = Inr bc"
    and "dtype fc \<noteq> dtype bc \<or> str_find (dtype_name (dtype fc)) ''category'' > - 1"
  shows "agg_no_instances astype_object ent child_entity groupby_var frame windowed
     = (case astype_object fc of
          None \<Rightarrow> Inl (CouldNotJoin (eid ent) (eindex ent) (dtype fc)
                         (eid child_entity) groupby_var (dtype bc))
        | Some frame_as_obj \<Rightarrow>
            (case astype_object bc of
               None \<Rightarrow> Inl (CouldNotJoin (eid ent) (eindex ent) (dtype fc)
                              (eid child_entity) groupby_var (dtype bc))
             | Some base_frame_as_obj \<Rightarrow>
                 Inr (Some (check_no_related_instances (vals frame_as_obj) (vals base_frame_as_obj)))))"
  using assms getitem_col_names [OF assms(3)]
  by (auto simp: agg_no_instances_def Let_def split: option.splits)

text \<open>
  Claim C6.  Take an execution that reaches the relatedness test: the where-filtered,
  windowed child table is not empty and has the link column, the parent table has its
  index column.  When the dtypes of the two columns differ, or the name of the parent
  column's dtype contains \<open>category\<close>, both columns are coerced to object and the test
  is made on the coerced values.  The calculator raises the join error if and only if
  one of the two coercions fails, and the error then names the parent entity, its
  index column and dtype, and the child entity, its link column and dtype.  (The
  grouped computation that follows the test is assumed not to raise that error
  itself.)
\<close>

theorem join_mismatch_iff_coercion_fails:
  assumes group: "fs = test_feature # rest" "base_features test_feature = bf0 # bfs"
    and frames: "entity_frames (eid (entity test_feature)) = Some frame"
                "entity_frames (eid (entity bf0)) = Some base_frame"
    and fs': "filter (\<lambda>f. get_name f \<notin> set (col_names frame)) fs \<noteq> []"
    and gv: "groupby_var = get_link_variable_name (entityset self)
               (find_backward_path (entityset self) (eid (entity test_feature)) (eid (entity bf0)))"
    and w: "agg_where_filter (where_f test_feature) base_frame = Inr filtered"
    and u: "agg_use_previous (use_previous test_feature) time_last (entity bf0) groupby_var filtered
              = Inr windowed"
    and ne: "\<not> empty windowed"
    and fc: "getitem frame (eindex (entity test_feature)) = Inr fc"
    and bc: "getitem windowed groupby_var = Inr bc"
    and differ: "dtype fc \<noteq> dtype bc \<or> str_find (dtype_name (dtype fc)) ''category'' > - 1"
    and agg: "\<And>p f i g a b x1 x2 x3 x4 x5 x6.
                aggregate p f i g a b \<noteq> Inl (CouldNotJoin x1 x2 x3 x4 x5 x6)"
  shows "agg_no_instances astype_object (entity test_feature) (entity bf0) groupby_var frame windowed
          = (case (astype_object fc, astype_object bc) of
               (Some frame_as_obj, Some base_frame_as_obj) \<Rightarrow>
                  Inr (Some (check_no_related_instances (vals frame_as_obj) (vals base_frame_as_obj)))
             | _ \<Rightarrow> Inl (CouldNotJoin (eid (entity test_feature)) (eindex (entity test_feature))
                           (dtype fc) (eid (entity bf0)) groupby_var (dtype bc)))
       \<and> ((\<exists>x1 x2 x3 x4 x5 x6.
              calculate_agg_features astype_object new_id aggregate self time_last fs entity_frames
                = Inl (CouldNotJoin x1 x2 x3 x4 x5 x6))
            \<longleftrightarrow> (astype_object fc = None \<or> astype_object bc = None))
       \<and> (astype_object fc = None \<or> astype_object bc = None \<longrightarrow>
            calculate_agg_features astype_object new_id aggregate self time_last fs entity_frames
              = Inl (CouldNotJoin (eid (entity test_feature)) (eindex (entity test_feature))
                       (dtype fc) (eid (entity bf0)) groupby_var (dtype bc)))"
proof -
  note c = agg_no_instances_coerce [OF ne fc bc differ, of astype_object "entity bf0"]
  note un = calculate_agg_features_unfold [OF group frames fs' w u [unfolded gv],
      of astype_object new_id aggregate, folded gv]
  have 1: "agg_no_instances astype_object (entity test_feature) (entity bf0) groupby_var frame windowed
     = (case (astype_object fc, astype_object bc) of
          (Some frame_as_obj, Some base_frame_as_obj) \<Rightarrow>
             Inr (Some (check_no_related_instances (vals frame_as_obj) (vals base_frame_as_obj)))
        | _ \<Rightarrow> Inl (CouldNotJoin (eid (entity test_feature)) (eindex (entity test_feature)) (dtype fc)
                      (eid (entity bf0)) groupby_var (dtype bc)))"
    unfolding c by (simp split: option.splits)
  have 3: "calculate_agg_features astype_object new_id aggregate self time_last fs entity_frames
           = Inl (CouldNotJoin (eid (entity test_feature)) (eindex (entity test_feature)) (dtype fc)
                    (eid (entity bf0)) groupby_var (dtype bc))"
    if "astype_object fc = None \<or> astype_object bc = None"
    unfolding un c using that by (auto split: option.splits)
  have 4: "calculate_agg_features astype_object new_id aggregate self time_last fs entity_frames
           \<noteq> Inl (CouldNotJoin x1 x2 x3 x4 x5 x6)"
    if ok: "astype_object fc = Some fo" "astype_object bc = Some bo" for fo bo x1 x2 x3 x4 x5 x6
  proof -
    have p: "agg_partition new_id 0 xs empty_plan \<noteq> Inl (CouldNotJoin x1 x2 x3 x4 x5 x6)" for xs
      using agg_partition_errors [of new_id 0 xs empty_plan] by auto
    show ?thesis
      unfolding un c ok
      by (auto simp: agg_should_default_def ne agg_write_defaults_no_error p agg
               split: sum.splits bool.splits)
  qed
  have 2: "(\<exists>x1 x2 x3 x4 x5 x6.
            calculate_agg_features astype_object new_id aggregate self time_last fs entity_frames
              = Inl (CouldNotJoin x1 x2 x3 x4 x5 x6))
         \<longleftrightarrow> (astype_object fc = None \<or> astype_object bc = None)"
    using 3 4 by (cases "astype_object fc"; cases "astype_object bc") auto
  show ?thesis
    using 1 2 3 by (intro conjI impI)
qed

theorem join_mismatch_iff_coercion_fails_witness:
  "empty text_sessions_df = False
   \<and> getitem customers_df ''id'' = Inr \<lparr>dtype = Int64, vals = [IntV 1, IntV 2, IntV 3]\<rparr>
   \<and> getitem text_sessions_df ''customer_id''
       = Inr \<lparr>dtype = Object, vals = [StrV ''1'', StrV ''2'']\<rparr>
   \<and> astype_fails \<lparr>dtype = Int64, vals = [IntV 1, IntV 2, IntV 3]\<rparr> = None
   \<and> calculate_agg_features astype_fails uuid_of no_aggregate shop_backend 500 [count_sessions]
         [''customers'' \<mapsto> customers_df, ''sessions'' \<mapsto> text_sessions_df]
       = Inl (CouldNotJoin ''customers'' ''id'' Int64 ''sessions'' ''customer_id'' Object)"
proof -
  let ?ef = "[''customers'' \<mapsto> customers_df, ''sessions'' \<mapsto> text_sessions_df]"
  have e: "\<not> empty text_sessions_df"
    by (simp add: empty_def text_sessions_df_def nrows_def)
  have ent: "entity count_sessions = customers" "base_features count_sessions = [session_id]"
    "entity session_id = sessions" "where_f count_sessions = None" "use_previous count_sessions = None"
    "get_name count_sessions = ''COUNT(sessions)''"
    by (simp_all add: count_sessions_def session_id_def identity_feature_def)
  have g1: "getitem customers_df (eindex (entity count_sessions))
              = Inr \<lparr>dtype = Int64, vals = [IntV 1, IntV 2, IntV 3]\<rparr>"
    by (simp add: getitem_def customers_df_def ent customers_def)
  have g2: "getitem text_sessions_df ''customer_id''
              = Inr \<lparr>dtype = Object, vals = [StrV ''1'', StrV ''2'']\<rparr>"
    by (simp add: getitem_def text_sessions_df_def)
  have group: "[count_sessions] = count_sessions # []"
    "base_features count_sessions = session_id # []"
    by (simp_all add: ent)
  have frames: "?ef (eid (entity count_sessions)) = Some customers_df"
    "?ef (eid (entity session_id)) = Some text_sessions_df"
    by (simp_all add: ent customers_def sessions_def)
  have fs': "filter (\<lambda>f. get_name f \<notin> set (col_names customers_df)) [count_sessions] \<noteq> []"
    by (simp add: ent col_names_def customers_df_def)
  have gv: "''customer_id'' = get_link_variable_name (entityset shop_backend)
               (find_backward_path (entityset shop_backend) (eid (entity count_sessions))
                  (eid (entity session_id)))"
    by (simp add: ent shop_backend_def shop_def customers_def sessions_def sessions_to_customers_def)
  have w: "agg_where_filter (where_f count_sessions) text_sessions_df = Inr text_sessions_df"
    by (simp add: ent agg_where_filter_def)
  have u: "agg_use_previous (use_previous count_sessions) 500 (entity session_id) ''customer_id''
             text_sessions_df = Inr text_sessions_df"
    by (simp add: ent agg_use_previous_def)
  have differ: "dtype \<lparr>dtype = Int64, vals = [IntV 1, IntV 2, IntV 3]\<rparr>
                  \<noteq> dtype \<lparr>dtype = Object, vals = [StrV ''1'', StrV ''2'']\<rparr>
                \<or> str_find (dtype_name (dtype \<lparr>dtype = Int64, vals = [IntV 1, IntV 2, IntV 3]\<rparr>))
                     ''category'' > - 1"
    by simp
  have agg: "\<And>p f i g a b x1 x2 x3 x4 x5 x6.
                no_aggregate p f i g a b \<noteq> Inl (CouldNotJoin x1 x2 x3 x4 x5 x6)"
    by (simp add: no_aggregate_def)
  have fails: "astype_fails \<lparr>dtype = Int64, vals = [IntV 1, IntV 2, IntV 3]\<rparr> = None"
    by (simp add: astype_fails_def)
  have r: "calculate_agg_features astype_fails uuid_of no_aggregate shop_backend 500 [count_sessions] ?ef
       = Inl (CouldNotJoin (eid (entity count_sessions)) (eindex (entity count_sessions)) Int64
                (eid (entity session_id)) ''customer_id'' Object)"
    using join_mismatch_iff_coercion_fails
            [where aggregate = no_aggregate and astype_object = astype_fails and new_id = uuid_of,
             OF group frames fs' gv w u e g1 g2 differ agg, THEN conjunct2, THEN conjunct2, THEN mp,
             OF disjI1, OF fails]
    by (simp only: column.select_convs)
  show ?thesis
    using r e g1 g2 fails by (simp add: ent customers_def sessions_def)
qed

section \<open>The use-previous window\<close>
























section \<open>Transform features\<close>









end
